theory Spec2Isabelle
  imports Complex_Main
begin

section \<open>Split GPU placement of the PPO trainer\<close>

text \<open>
  The development embeds \<^verbatim>\<open>TaskRunnerSplit.init_resource_pool_mgr\<close> of
  \<^verbatim>\<open>verl/trainer/main_ppo_split.py\<close>. The method reads five fields of the
  configuration, builds a dictionary from pool names to lists of per-node GPU counts,
  writes two entries of the dictionary \<^verbatim>\<open>self.mapping\<close>, checks the reward-model
  counts and hands both dictionaries to \<^verbatim>\<open>ResourcePoolManager\<close>, whose
  construction may fail in its turn. The three
  \<^verbatim>\<open>print\<close> calls of the method only write the dictionary to standard output and
  are left out of the model.
\<close>

subsection \<open>Python values\<close>

text \<open>
  A Python \<^verbatim>\<open>dict\<close> keeps its keys distinct and in insertion order, so it is an
  association list. \<^verbatim>\<open>d[k] = v\<close> overwrites the value of a key that is present,
  at the key's place, and appends the pair otherwise. A key is looked up with
  \<^const>\<open>map_of\<close>.
\<close>

fun dict_set :: "'k \<Rightarrow> 'v \<Rightarrow> ('k \<times> 'v) list \<Rightarrow> ('k \<times> 'v) list" where
  "dict_set k v [] = [(k, v)]"
| "dict_set k v (p # d) = (if fst p = k then (fst p, v) # d else p # dict_set k v d)"

text \<open>
  \<^verbatim>\<open>xs * k\<close> on a list repeats it \<^verbatim>\<open>k\<close> times, and gives the empty list for
  \<^verbatim>\<open>k <= 0\<close>. Python integers are unbounded: \<^typ>\<open>int\<close>, whose \<open>div\<close> and
  \<open>mod\<close> round towards minus infinity as \<^verbatim>\<open>//\<close> and \<^verbatim>\<open>%\<close> do.
\<close>

definition list_mul :: "'a list \<Rightarrow> int \<Rightarrow> 'a list" where
  "list_mul xs k = concat (replicate (nat k) xs)"

subsection \<open>Configuration, roles and the manager\<close>

text \<open>
  The fields of the configuration object that the method reads:
  \<^verbatim>\<open>config.trainer.n_gpus_per_node\<close>, \<^verbatim>\<open>config.trainer.nnodes\<close>,
  \<^verbatim>\<open>config.reward_model.enable_resource_pool\<close>,
  \<^verbatim>\<open>config.reward_model.n_gpus_per_node\<close> and \<^verbatim>\<open>config.reward_model.nnodes\<close>.
\<close>

record config =
  trainer_n_gpus_per_node :: int
  trainer_nnodes :: int
  reward_model_enable_resource_pool :: bool
  reward_model_n_gpus_per_node :: int
  reward_model_nnodes :: int

text \<open>
  Modelled from the spec: the enumeration \<^verbatim>\<open>Role\<close> is imported from
  \<^verbatim>\<open>verl.trainer.ppo.ray_trainer\<close>, which is not among the sources. The spec lists
  its tags as ActorRollout, Critic, RewardModel and Reference; the method itself names
  \<^verbatim>\<open>Role.ActorRollout\<close> and \<^verbatim>\<open>Role.Critic\<close> only.
\<close>

datatype Role = ActorRollout | Critic | RewardModel | Reference

type_synonym pool_spec = "(string \<times> int list) list"

type_synonym role_mapping = "(Role \<times> string) list"

text \<open>
  Modelled from the spec: the class \<^verbatim>\<open>ResourcePoolManager\<close> is imported from
  \<^verbatim>\<open>verl.trainer.ppo.ray_trainer\<close>, which is not among the sources. The spec
  describes the plan handed on as the frozen pair of the pool spec and the role mapping,
  created by an operation that validates the pair eagerly and fails on a violation. The
  manager is the record of the two keyword arguments it is constructed from, and the
  validation the constructor performs is a parameter of the construction: it returns the
  error to raise, or nothing.
\<close>

record ResourcePoolManager =
  resource_pool_spec :: pool_spec
  mapping :: role_mapping

text \<open>
  \<^verbatim>\<open>ValueError\<close> is what the method itself raises. The other errors are modelled
  from the spec: they are the kinds it gives for the validation of a plan, a role bound to
  a pool name that the pool spec does not hold, and a pool name declared twice.
\<close>

datatype error = ValueError string | UnknownPool string | DuplicatePoolName

type_synonym validation = "pool_spec \<Rightarrow> role_mapping \<Rightarrow> error option"

definition new_ResourcePoolManager ::
    "validation \<Rightarrow> pool_spec \<Rightarrow> role_mapping \<Rightarrow> error + ResourcePoolManager" where
  "new_ResourcePoolManager validate spec mp =
     (case validate spec mp of
        Some e \<Rightarrow> Inl e
      | None \<Rightarrow> Inr \<lparr>resource_pool_spec = spec, mapping = mp\<rparr>)"

text \<open>
  Modelled from the spec: the validation of the spec's \<^verbatim>\<open>create\<close>, used where a
  call is evaluated at a concrete input. Its first check fails with
  \<^verbatim>\<open>UnknownPool\<close> on the first binding of the mapping whose pool name is not
  among the pools of the spec; its third fails with \<^verbatim>\<open>DuplicatePoolName\<close> when a
  pool name occurs twice. The second check of the spec, against over-allocation, compares
  with the devices of a node, which the constructor is not passed; it is not part of
  this validation, and every general statement below holds for any validation at all.
\<close>

definition create_violation :: validation where
  "create_violation spec mp =
     (case filter (\<lambda>b. map_of spec (snd b) = None) mp of
        b # bs \<Rightarrow> Some (UnknownPool (snd b))
      | [] \<Rightarrow> if distinct (map fst spec) then None else Some DuplicatePoolName)"

subsection \<open>The method\<close>

definition actor_rollout_ref_pool_id :: string where
  "actor_rollout_ref_pool_id = ''actor_rollout_ref_pool''"

definition critic_pool_id :: string where
  "critic_pool_id = ''critic_pool''"

text \<open>
  Lines 116 to 130, the computation of the GPU allocation: the dictionary literal of
  either branch, with its two distinct keys in the order they are written.
\<close>

definition split_resource_pool_spec :: "int \<Rightarrow> int \<Rightarrow> pool_spec" where
  "split_resource_pool_spec n_gpus_per_node nnodes =
     (if n_gpus_per_node mod 2 = 0 then
        (let gpus_per_pool = n_gpus_per_node div 2
         in [(actor_rollout_ref_pool_id, list_mul [gpus_per_pool] nnodes),
             (critic_pool_id, list_mul [gpus_per_pool] nnodes)])
      else
        (let actor_gpus = (n_gpus_per_node + 1) div 2;
             critic_gpus = n_gpus_per_node div 2
         in [(actor_rollout_ref_pool_id, list_mul [actor_gpus] nnodes),
             (critic_pool_id, list_mul [critic_gpus] nnodes)]))"

text \<open>
  The whole method. \<^verbatim>\<open>self.mapping\<close> is mutated in place, so the dictionary is
  passed in and the one the method leaves behind is returned beside the outcome, also
  when the method raises: the two role bindings are written before the reward-model
  checks run and before the manager is constructed. The outcome is the error raised, by
  the method or by the constructor, or the manager returned.
\<close>

definition init_resource_pool_mgr ::
    "validation \<Rightarrow> config \<Rightarrow> role_mapping \<Rightarrow> (error + ResourcePoolManager) \<times> role_mapping" where
  "init_resource_pool_mgr validate cfg self_mapping =
     (let n_gpus_per_node = trainer_n_gpus_per_node cfg;
          nnodes = trainer_nnodes cfg;
          pool_spec = split_resource_pool_spec n_gpus_per_node nnodes;
          self_mapping1 = dict_set ActorRollout actor_rollout_ref_pool_id self_mapping;
          self_mapping2 = dict_set Critic critic_pool_id self_mapping1
      in if reward_model_enable_resource_pool cfg then
           (if reward_model_n_gpus_per_node cfg \<le> 0 then
              (Inl (ValueError ''config.reward_model.n_gpus_per_node must be greater than 0''),
               self_mapping2)
            else if reward_model_nnodes cfg \<le> 0 then
              (Inl (ValueError ''config.reward_model.nnodes must be greater than 0''),
               self_mapping2)
            else
              (let reward_pool =
                     list_mul [reward_model_n_gpus_per_node cfg] (reward_model_nnodes cfg);
                   pool_spec1 = dict_set ''reward_pool'' reward_pool pool_spec
               in (new_ResourcePoolManager validate pool_spec1 self_mapping2, self_mapping2)))
         else
           (new_ResourcePoolManager validate pool_spec self_mapping2, self_mapping2))"

subsection \<open>Inputs of the scenarios\<close>

text \<open>
  The configurations of the scenarios: a cluster of \<open>nn\<close> nodes with \<open>n\<close> GPUs
  each, without a reward pool, or with a reward pool of its own node and GPU counts.
\<close>

definition plain_config :: "int \<Rightarrow> int \<Rightarrow> config" where
  "plain_config nn n =
     \<lparr>trainer_n_gpus_per_node = n, trainer_nnodes = nn,
      reward_model_enable_resource_pool = False,
      reward_model_n_gpus_per_node = 0, reward_model_nnodes = 0\<rparr>"

definition reward_config :: "int \<Rightarrow> int \<Rightarrow> int \<Rightarrow> int \<Rightarrow> config" where
  "reward_config nn n rm_nn rm_n =
     \<lparr>trainer_n_gpus_per_node = n, trainer_nnodes = nn,
      reward_model_enable_resource_pool = True,
      reward_model_n_gpus_per_node = rm_n, reward_model_nnodes = rm_nn\<rparr>"

section \<open>Auxiliary facts\<close>

lemma list_mul_single: "list_mul [x] k = replicate (nat k) x"
  by (induction "nat k" arbitrary: k) (simp_all add: list_mul_def)

lemma replicate_two: "replicate 2 x = [x, x]"
  by (simp add: numeral_2_eq_2)

lemma pool_ids_distinct:
  "actor_rollout_ref_pool_id \<noteq> critic_pool_id"
  "critic_pool_id \<noteq> actor_rollout_ref_pool_id"
  "actor_rollout_ref_pool_id \<noteq> ''reward_pool''"
  "critic_pool_id \<noteq> ''reward_pool''"
  by (simp_all add: actor_rollout_ref_pool_id_def critic_pool_id_def)

lemma map_of_dict_set:
  "map_of (dict_set k v d) k' = (if k' = k then Some v else map_of d k')"
  by (induction d) auto

lemma dict_set_present: "map_of d k = Some v \<Longrightarrow> dict_set k v d = d"
  by (induction d) (auto split: if_splits)

lemma dict_set_twice:
  "a \<noteq> b \<Longrightarrow>
   dict_set b y (dict_set a x (dict_set b y (dict_set a x d))) = dict_set b y (dict_set a x d)"
  by (simp add: dict_set_present map_of_dict_set)

lemma ceiling_half: "odd (n::int) \<Longrightarrow> \<lceil>real_of_int n / 2\<rceil> = (n + 1) div 2"
  by (auto elim!: oddE simp: ceiling_eq_iff)

lemma floor_half: "\<lfloor>real_of_int n / 2\<rfloor> = n div 2"
  using floor_divide_of_int_eq [of n 2, where ?'a = real] by simp

text \<open>Both branches of the allocation, as one pair of rows.\<close>

lemma split_spec_rows:
  "split_resource_pool_spec n nn =
     [(actor_rollout_ref_pool_id, replicate (nat nn) ((n + 1) div 2)),
      (critic_pool_id, replicate (nat nn) (n div 2))]"
  by (simp add: split_resource_pool_spec_def list_mul_single Let_def) presburger

text \<open>A manager that is returned holds the two arguments of its construction.\<close>

lemma new_manager_fields:
  "new_ResourcePoolManager validate spec mp = Inr mgr \<Longrightarrow>
   resource_pool_spec mgr = spec \<and> mapping mgr = mp"
  by (auto simp add: new_ResourcePoolManager_def split: option.splits)


lemma create_violation_reward:
  "create_violation [(actor_rollout_ref_pool_id, a), (critic_pool_id, c), (''reward_pool'', r)]
     [(ActorRollout, actor_rollout_ref_pool_id), (Critic, critic_pool_id)] = None"
  by (simp add: create_violation_def pool_ids_distinct)

text \<open>What the method does on each of its four paths.\<close>

lemma init_disabled:
  "\<not> reward_model_enable_resource_pool cfg \<Longrightarrow>
   init_resource_pool_mgr validate cfg m =
     (new_ResourcePoolManager validate
        (split_resource_pool_spec (trainer_n_gpus_per_node cfg) (trainer_nnodes cfg))
        (dict_set Critic critic_pool_id (dict_set ActorRollout actor_rollout_ref_pool_id m)),
      dict_set Critic critic_pool_id (dict_set ActorRollout actor_rollout_ref_pool_id m))"
  by (simp add: init_resource_pool_mgr_def Let_def)

lemma init_enabled:
  "reward_model_enable_resource_pool cfg \<Longrightarrow> 0 < reward_model_n_gpus_per_node cfg \<Longrightarrow>
   0 < reward_model_nnodes cfg \<Longrightarrow>
   init_resource_pool_mgr validate cfg m =
     (new_ResourcePoolManager validate
        (split_resource_pool_spec (trainer_n_gpus_per_node cfg) (trainer_nnodes cfg) @
         [(''reward_pool'',
           replicate (nat (reward_model_nnodes cfg)) (reward_model_n_gpus_per_node cfg))])
        (dict_set Critic critic_pool_id (dict_set ActorRollout actor_rollout_ref_pool_id m)),
      dict_set Critic critic_pool_id (dict_set ActorRollout actor_rollout_ref_pool_id m))"
  by (simp add: init_resource_pool_mgr_def Let_def split_spec_rows list_mul_single
      pool_ids_distinct)

lemma init_bad_gpus:
  "reward_model_enable_resource_pool cfg \<Longrightarrow> reward_model_n_gpus_per_node cfg \<le> 0 \<Longrightarrow>
   init_resource_pool_mgr validate cfg m =
     (Inl (ValueError ''config.reward_model.n_gpus_per_node must be greater than 0''),
      dict_set Critic critic_pool_id (dict_set ActorRollout actor_rollout_ref_pool_id m))"
  by (simp add: init_resource_pool_mgr_def Let_def)

lemma init_bad_nnodes:
  "reward_model_enable_resource_pool cfg \<Longrightarrow> 0 < reward_model_n_gpus_per_node cfg \<Longrightarrow>
   reward_model_nnodes cfg \<le> 0 \<Longrightarrow>
   init_resource_pool_mgr validate cfg m =
     (Inl (ValueError ''config.reward_model.nnodes must be greater than 0''),
      dict_set Critic critic_pool_id (dict_set ActorRollout actor_rollout_ref_pool_id m))"
  by (simp add: init_resource_pool_mgr_def Let_def)

text \<open>The mapping the method leaves behind is the same on every path.\<close>

lemma init_mapping:
  "snd (init_resource_pool_mgr validate cfg m) =
     dict_set Critic critic_pool_id (dict_set ActorRollout actor_rollout_ref_pool_id m)"
  by (simp add: init_resource_pool_mgr_def Let_def)

text \<open>
  Whenever a manager is returned, its pool spec is the allocation, followed by the
  reward pool when that is enabled, and its mapping is the one the method wrote.
\<close>

lemma init_returns_spec:
  assumes "fst (init_resource_pool_mgr validate cfg m) = Inr mgr"
  shows "resource_pool_spec mgr =
           split_resource_pool_spec (trainer_n_gpus_per_node cfg) (trainer_nnodes cfg) @
           (if reward_model_enable_resource_pool cfg
            then [(''reward_pool'',
                   replicate (nat (reward_model_nnodes cfg)) (reward_model_n_gpus_per_node cfg))]
            else [])"
    and "mapping mgr =
           dict_set Critic critic_pool_id (dict_set ActorRollout actor_rollout_ref_pool_id m)"
proof -
  show "resource_pool_spec mgr =
           split_resource_pool_spec (trainer_n_gpus_per_node cfg) (trainer_nnodes cfg) @
           (if reward_model_enable_resource_pool cfg
            then [(''reward_pool'',
                   replicate (nat (reward_model_nnodes cfg)) (reward_model_n_gpus_per_node cfg))]
            else [])"
  proof (cases "reward_model_enable_resource_pool cfg")
    case False
    with assms show ?thesis
      by (auto simp add: init_disabled dest: new_manager_fields)
  next
    case True
    show ?thesis
    proof (cases "0 < reward_model_n_gpus_per_node cfg \<and> 0 < reward_model_nnodes cfg")
      case True
      with assms \<open>reward_model_enable_resource_pool cfg\<close> show ?thesis
        by (auto simp add: init_enabled dest: new_manager_fields)
    next
      case False
      with assms \<open>reward_model_enable_resource_pool cfg\<close> show ?thesis
        by (auto simp add: init_resource_pool_mgr_def Let_def split: if_splits)
    qed
  qed
  show "mapping mgr =
           dict_set Critic critic_pool_id (dict_set ActorRollout actor_rollout_ref_pool_id m)"
    using assms
    by (auto simp add: init_resource_pool_mgr_def Let_def split: if_splits
        dest: new_manager_fields)
qed

lemma init_returns_rows:
  assumes "fst (init_resource_pool_mgr validate cfg m) = Inr mgr"
  shows "map_of (resource_pool_spec mgr) actor_rollout_ref_pool_id =
           Some (replicate (nat (trainer_nnodes cfg)) ((trainer_n_gpus_per_node cfg + 1) div 2))"
    and "map_of (resource_pool_spec mgr) critic_pool_id =
           Some (replicate (nat (trainer_nnodes cfg)) (trainer_n_gpus_per_node cfg div 2))"
  by (simp_all add: init_returns_spec(1) [OF assms] split_spec_rows pool_ids_distinct)

section \<open>The allocation\<close>

text \<open>
  C1. For a cluster of at least one node with an odd number of GPUs per node, the
  allocation gives the ceiling of half the GPUs of a node to
  \<^verbatim>\<open>actor_rollout_ref_pool\<close> and the floor to \<^verbatim>\<open>critic_pool\<close>, the same
  count on every node, and the two counts add up to the GPUs of a node. Every manager
  the method returns, whatever the constructor validates, carries these two rows.
\<close>

theorem split_odd_ceiling_floor:
  assumes "1 \<le> trainer_nnodes cfg" and "odd (trainer_n_gpus_per_node cfg)"
  shows "split_resource_pool_spec (trainer_n_gpus_per_node cfg) (trainer_nnodes cfg) =
           [(actor_rollout_ref_pool_id,
             replicate (nat (trainer_nnodes cfg)) \<lceil>real_of_int (trainer_n_gpus_per_node cfg) / 2\<rceil>),
            (critic_pool_id,
             replicate (nat (trainer_nnodes cfg)) \<lfloor>real_of_int (trainer_n_gpus_per_node cfg) / 2\<rfloor>)]
         \<and> \<lceil>real_of_int (trainer_n_gpus_per_node cfg) / 2\<rceil> +
             \<lfloor>real_of_int (trainer_n_gpus_per_node cfg) / 2\<rfloor> = trainer_n_gpus_per_node cfg
         \<and> 0 < nat (trainer_nnodes cfg)
         \<and> (\<forall>validate m mgr. fst (init_resource_pool_mgr validate cfg m) = Inr mgr \<longrightarrow>
               map_of (resource_pool_spec mgr) actor_rollout_ref_pool_id =
                 Some (replicate (nat (trainer_nnodes cfg))
                   \<lceil>real_of_int (trainer_n_gpus_per_node cfg) / 2\<rceil>) \<and>
               map_of (resource_pool_spec mgr) critic_pool_id =
                 Some (replicate (nat (trainer_nnodes cfg))
                   \<lfloor>real_of_int (trainer_n_gpus_per_node cfg) / 2\<rfloor>))"
proof -
  let ?n = "trainer_n_gpus_per_node cfg"
  have c: "\<lceil>real_of_int ?n / 2\<rceil> = (?n + 1) div 2"
    using assms(2) by (rule ceiling_half)
  have f: "\<lfloor>real_of_int ?n / 2\<rfloor> = ?n div 2"
    by (rule floor_half)
  have s: "(?n + 1) div 2 + ?n div 2 = ?n"
    using assms(2) by presburger
  have k: "0 < nat (trainer_nnodes cfg)"
    using assms(1) by simp
  show ?thesis
    unfolding c f using s k by (simp add: split_spec_rows init_returns_rows)
qed

theorem split_odd_ceiling_floor_witness:
  "1 \<le> trainer_nnodes (plain_config 1 3) \<and> odd (trainer_n_gpus_per_node (plain_config 1 3))
   \<and> split_resource_pool_spec 3 1 = [(''actor_rollout_ref_pool'', [2]), (''critic_pool'', [1])]
   \<and> fst (init_resource_pool_mgr create_violation (plain_config 1 3) []) =
       Inr \<lparr>resource_pool_spec = [(''actor_rollout_ref_pool'', [2]), (''critic_pool'', [1])],
            mapping = [(ActorRollout, ''actor_rollout_ref_pool''), (Critic, ''critic_pool'')]\<rparr>"
proof -
  have h1: "1 \<le> trainer_nnodes (plain_config 1 3)"
    by (simp add: plain_config_def)
  have h2: "odd (trainer_n_gpus_per_node (plain_config 1 3))"
    by (simp add: plain_config_def)
  have e: "\<not> reward_model_enable_resource_pool (plain_config 1 3)"
    by (simp add: plain_config_def)
  have r: "split_resource_pool_spec 3 1 =
      [(''actor_rollout_ref_pool'', [2]), (''critic_pool'', [1])]"
    using split_odd_ceiling_floor [OF h1 h2]
    by (simp add: plain_config_def actor_rollout_ref_pool_id_def critic_pool_id_def)
  have "fst (init_resource_pool_mgr create_violation (plain_config 1 3) []) =
       Inr \<lparr>resource_pool_spec = [(''actor_rollout_ref_pool'', [2]), (''critic_pool'', [1])],
            mapping = [(ActorRollout, ''actor_rollout_ref_pool''), (Critic, ''critic_pool'')]\<rparr>"
    unfolding init_disabled [OF e]
    using r by (simp add: plain_config_def new_ResourcePoolManager_def create_violation_def
        actor_rollout_ref_pool_id_def critic_pool_id_def)
  with h1 h2 r show ?thesis by blast
qed

text \<open>
  C2. For a cluster of at least one node with an even number of GPUs per node, at
  least two, the allocation gives exactly half the GPUs of a node to each of the two
  pools, the same count on every node. Every manager the method returns, whatever the
  constructor validates, carries these two rows.
\<close>

theorem split_even_halves:
  assumes "1 \<le> trainer_nnodes cfg" and "even (trainer_n_gpus_per_node cfg)"
    and "2 \<le> trainer_n_gpus_per_node cfg"
  shows "split_resource_pool_spec (trainer_n_gpus_per_node cfg) (trainer_nnodes cfg) =
           [(actor_rollout_ref_pool_id,
             replicate (nat (trainer_nnodes cfg)) (trainer_n_gpus_per_node cfg div 2)),
            (critic_pool_id,
             replicate (nat (trainer_nnodes cfg)) (trainer_n_gpus_per_node cfg div 2))]
         \<and> real_of_int (trainer_n_gpus_per_node cfg div 2) =
             real_of_int (trainer_n_gpus_per_node cfg) / 2
         \<and> 1 \<le> trainer_n_gpus_per_node cfg div 2
         \<and> 0 < nat (trainer_nnodes cfg)
         \<and> (\<forall>validate m mgr. fst (init_resource_pool_mgr validate cfg m) = Inr mgr \<longrightarrow>
               map_of (resource_pool_spec mgr) actor_rollout_ref_pool_id =
                 Some (replicate (nat (trainer_nnodes cfg)) (trainer_n_gpus_per_node cfg div 2)) \<and>
               map_of (resource_pool_spec mgr) critic_pool_id =
                 Some (replicate (nat (trainer_nnodes cfg)) (trainer_n_gpus_per_node cfg div 2)))"
proof -
  let ?n = "trainer_n_gpus_per_node cfg"
  have a: "(?n + 1) div 2 = ?n div 2"
    using assms(2) by presburger
  have h: "real_of_int (?n div 2) = real_of_int ?n / 2"
    using assms(2) by (auto elim!: evenE)
  have p: "1 \<le> ?n div 2"
    using assms(3) by presburger
  have k: "0 < nat (trainer_nnodes cfg)"
    using assms(1) by simp
  show ?thesis
    using a h p k by (simp add: split_spec_rows init_returns_rows)
qed

theorem split_even_halves_witness:
  "1 \<le> trainer_nnodes (plain_config 2 4) \<and> even (trainer_n_gpus_per_node (plain_config 2 4))
   \<and> 2 \<le> trainer_n_gpus_per_node (plain_config 2 4)
   \<and> split_resource_pool_spec 4 2 =
       [(''actor_rollout_ref_pool'', [2, 2]), (''critic_pool'', [2, 2])]
   \<and> fst (init_resource_pool_mgr create_violation (plain_config 2 4) []) =
       Inr \<lparr>resource_pool_spec =
              [(''actor_rollout_ref_pool'', [2, 2]), (''critic_pool'', [2, 2])],
            mapping = [(ActorRollout, ''actor_rollout_ref_pool''), (Critic, ''critic_pool'')]\<rparr>"
proof -
  have h1: "1 \<le> trainer_nnodes (plain_config 2 4)"
    by (simp add: plain_config_def)
  have h2: "even (trainer_n_gpus_per_node (plain_config 2 4))"
    by (simp add: plain_config_def)
  have h3: "2 \<le> trainer_n_gpus_per_node (plain_config 2 4)"
    by (simp add: plain_config_def)
  have e: "\<not> reward_model_enable_resource_pool (plain_config 2 4)"
    by (simp add: plain_config_def)
  have t: "replicate (nat 2) (2::int) = [2, 2]"
    by (simp add: numeral_2_eq_2)
  have r: "split_resource_pool_spec 4 2 =
      [(''actor_rollout_ref_pool'', [2, 2]), (''critic_pool'', [2, 2])]"
    using split_even_halves [OF h1 h2 h3] t
    by (simp add: plain_config_def actor_rollout_ref_pool_id_def critic_pool_id_def)
  have "fst (init_resource_pool_mgr create_violation (plain_config 2 4) []) =
       Inr \<lparr>resource_pool_spec =
              [(''actor_rollout_ref_pool'', [2, 2]), (''critic_pool'', [2, 2])],
            mapping = [(ActorRollout, ''actor_rollout_ref_pool''), (Critic, ''critic_pool'')]\<rparr>"
    unfolding init_disabled [OF e]
    using r by (simp add: plain_config_def new_ResourcePoolManager_def create_violation_def
        actor_rollout_ref_pool_id_def critic_pool_id_def)
  with h1 h2 h3 r show ?thesis by blast
qed

text \<open>
  C3. In every manager the method returns, whatever the constructor validates, the rows
  of the two primary pools have one entry per node, and on every node the two entries
  add up to exactly the GPUs of a node, so they never exceed them. The rows are those of
  the allocation alone, which does not read the reward-model fields: an enabled reward
  pool is one more row after them, with its own node and GPU counts, and every manager
  returned for the same configuration with the reward pool switched off holds just
  these two rows.
\<close>

theorem primary_rows_fill_node_budget:
  assumes "fst (init_resource_pool_mgr validate cfg m) = Inr mgr"
  shows "\<exists>a c.
           map_of (resource_pool_spec mgr) actor_rollout_ref_pool_id = Some a
         \<and> map_of (resource_pool_spec mgr) critic_pool_id = Some c
         \<and> length a = nat (trainer_nnodes cfg) \<and> length c = nat (trainer_nnodes cfg)
         \<and> (\<forall>i < nat (trainer_nnodes cfg).
               a ! i + c ! i = trainer_n_gpus_per_node cfg \<and>
               a ! i + c ! i \<le> trainer_n_gpus_per_node cfg)
         \<and> split_resource_pool_spec (trainer_n_gpus_per_node cfg) (trainer_nnodes cfg) =
             [(actor_rollout_ref_pool_id, a), (critic_pool_id, c)]
         \<and> resource_pool_spec mgr =
             [(actor_rollout_ref_pool_id, a), (critic_pool_id, c)] @
             (if reward_model_enable_resource_pool cfg
              then [(''reward_pool'',
                     replicate (nat (reward_model_nnodes cfg)) (reward_model_n_gpus_per_node cfg))]
              else [])
         \<and> (\<forall>validate' m' mgr'.
               fst (init_resource_pool_mgr validate'
                     (cfg\<lparr>reward_model_enable_resource_pool := False\<rparr>) m') = Inr mgr' \<longrightarrow>
               resource_pool_spec mgr' = [(actor_rollout_ref_pool_id, a), (critic_pool_id, c)])"
proof -
  let ?n = "trainer_n_gpus_per_node cfg"
  let ?k = "nat (trainer_nnodes cfg)"
  let ?a = "replicate ?k ((?n + 1) div 2)"
  let ?c = "replicate ?k (?n div 2)"
  have s: "(?n + 1) div 2 + ?n div 2 = ?n"
    by presburger
  have "map_of (resource_pool_spec mgr) actor_rollout_ref_pool_id = Some ?a"
    and "map_of (resource_pool_spec mgr) critic_pool_id = Some ?c"
    using init_returns_rows [OF assms] by simp_all
  moreover have "length ?a = ?k" and "length ?c = ?k"
    by simp_all
  moreover have "\<forall>i < ?k. ?a ! i + ?c ! i = ?n \<and> ?a ! i + ?c ! i \<le> ?n"
    using s by simp
  moreover have "split_resource_pool_spec ?n (trainer_nnodes cfg) =
      [(actor_rollout_ref_pool_id, ?a), (critic_pool_id, ?c)]"
    by (rule split_spec_rows)
  moreover have "resource_pool_spec mgr =
             [(actor_rollout_ref_pool_id, ?a), (critic_pool_id, ?c)] @
             (if reward_model_enable_resource_pool cfg
              then [(''reward_pool'',
                     replicate (nat (reward_model_nnodes cfg)) (reward_model_n_gpus_per_node cfg))]
              else [])"
    using init_returns_spec(1) [OF assms] by (simp add: split_spec_rows)
  moreover have "\<forall>validate' m' mgr'.
               fst (init_resource_pool_mgr validate'
                     (cfg\<lparr>reward_model_enable_resource_pool := False\<rparr>) m') = Inr mgr' \<longrightarrow>
               resource_pool_spec mgr' = [(actor_rollout_ref_pool_id, ?a), (critic_pool_id, ?c)]"
  proof (intro allI impI)
    fix validate' m' mgr'
    assume "fst (init_resource_pool_mgr validate'
                     (cfg\<lparr>reward_model_enable_resource_pool := False\<rparr>) m') = Inr mgr'"
    from init_returns_spec(1) [OF this]
    show "resource_pool_spec mgr' = [(actor_rollout_ref_pool_id, ?a), (critic_pool_id, ?c)]"
      by (simp add: split_spec_rows)
  qed
  ultimately show ?thesis
    by blast
qed

theorem primary_rows_fill_node_budget_witness:
  "fst (init_resource_pool_mgr create_violation (reward_config 2 2 1 1) []) =
     Inr \<lparr>resource_pool_spec =
            [(''actor_rollout_ref_pool'', [1, 1]), (''critic_pool'', [1, 1]),
             (''reward_pool'', [1])],
          mapping = [(ActorRollout, ''actor_rollout_ref_pool''), (Critic, ''critic_pool'')]\<rparr>
   \<and> (\<exists>a c. split_resource_pool_spec 2 2 =
               [(actor_rollout_ref_pool_id, a), (critic_pool_id, c)]
            \<and> length a = 2 \<and> length c = 2
            \<and> a ! 0 + c ! 0 = 2 \<and> a ! 1 + c ! 1 = 2)"
proof -
  let ?mgr = "\<lparr>resource_pool_spec =
            [(''actor_rollout_ref_pool'', [1, 1]), (''critic_pool'', [1, 1]),
             (''reward_pool'', [1::int])],
          mapping = [(ActorRollout, ''actor_rollout_ref_pool''), (Critic, ''critic_pool'')]\<rparr>"
  have h: "fst (init_resource_pool_mgr create_violation (reward_config 2 2 1 1) []) = Inr ?mgr"
    by (simp add: init_enabled reward_config_def split_spec_rows replicate_two
        new_ResourcePoolManager_def create_violation_def
        actor_rollout_ref_pool_id_def critic_pool_id_def)
  from primary_rows_fill_node_budget [OF h]
  obtain a c where
    "split_resource_pool_spec (trainer_n_gpus_per_node (reward_config 2 2 1 1))
       (trainer_nnodes (reward_config 2 2 1 1)) =
       [(actor_rollout_ref_pool_id, a), (critic_pool_id, c)]"
    and "length a = nat (trainer_nnodes (reward_config 2 2 1 1))"
    and "length c = nat (trainer_nnodes (reward_config 2 2 1 1))"
    and "\<forall>i < nat (trainer_nnodes (reward_config 2 2 1 1)).
           a ! i + c ! i = trainer_n_gpus_per_node (reward_config 2 2 1 1) \<and>
           a ! i + c ! i \<le> trainer_n_gpus_per_node (reward_config 2 2 1 1)"
    by blast
  then have "split_resource_pool_spec 2 2 =
               [(actor_rollout_ref_pool_id, a), (critic_pool_id, c)]
            \<and> length a = 2 \<and> length c = 2
            \<and> a ! 0 + c ! 0 = 2 \<and> a ! 1 + c ! 1 = 2"
    by (simp add: reward_config_def)
  with h show ?thesis by blast
qed

text \<open>
  C10. For a cluster of at least one node with at least one GPU per node, on every
  node the count of \<^verbatim>\<open>actor_rollout_ref_pool\<close> minus the count of
  \<^verbatim>\<open>critic_pool\<close> is the number of GPUs of a node modulo 2: the actor count is never
  below the critic count and is above it by one at most. Every manager the method
  returns, whatever the constructor validates, carries these two rows.
\<close>

theorem actor_row_leads_by_parity:
  assumes "1 \<le> trainer_n_gpus_per_node cfg" and "1 \<le> trainer_nnodes cfg"
  shows "\<exists>a c.
           split_resource_pool_spec (trainer_n_gpus_per_node cfg) (trainer_nnodes cfg) =
             [(actor_rollout_ref_pool_id, a), (critic_pool_id, c)]
         \<and> length a = nat (trainer_nnodes cfg) \<and> length c = nat (trainer_nnodes cfg)
         \<and> 0 < nat (trainer_nnodes cfg)
         \<and> (\<forall>i < nat (trainer_nnodes cfg).
               a ! i - c ! i = trainer_n_gpus_per_node cfg mod 2 \<and>
               c ! i \<le> a ! i \<and> a ! i \<le> c ! i + 1)
         \<and> (\<forall>validate m mgr. fst (init_resource_pool_mgr validate cfg m) = Inr mgr \<longrightarrow>
               map_of (resource_pool_spec mgr) actor_rollout_ref_pool_id = Some a \<and>
               map_of (resource_pool_spec mgr) critic_pool_id = Some c)"
proof -
  let ?n = "trainer_n_gpus_per_node cfg"
  let ?k = "nat (trainer_nnodes cfg)"
  let ?a = "replicate ?k ((?n + 1) div 2)"
  let ?c = "replicate ?k (?n div 2)"
  have d: "(?n + 1) div 2 - ?n div 2 = ?n mod 2"
    by presburger
  have le: "?n div 2 \<le> (?n + 1) div 2" and ge: "(?n + 1) div 2 \<le> ?n div 2 + 1"
    by presburger+
  have "split_resource_pool_spec ?n (trainer_nnodes cfg) =
      [(actor_rollout_ref_pool_id, ?a), (critic_pool_id, ?c)]"
    by (rule split_spec_rows)
  moreover have "length ?a = ?k" and "length ?c = ?k" and "0 < ?k"
    using assms(2) by simp_all
  moreover have "\<forall>i < ?k. ?a ! i - ?c ! i = ?n mod 2 \<and> ?c ! i \<le> ?a ! i \<and> ?a ! i \<le> ?c ! i + 1"
    using d le ge by simp
  moreover have "\<forall>validate m mgr. fst (init_resource_pool_mgr validate cfg m) = Inr mgr \<longrightarrow>
               map_of (resource_pool_spec mgr) actor_rollout_ref_pool_id = Some ?a \<and>
               map_of (resource_pool_spec mgr) critic_pool_id = Some ?c"
    by (simp add: init_returns_rows)
  ultimately show ?thesis
    by blast
qed

theorem actor_row_leads_by_parity_witness:
  "1 \<le> trainer_n_gpus_per_node (plain_config 2 5) \<and> 1 \<le> trainer_nnodes (plain_config 2 5)
   \<and> (\<exists>a c. split_resource_pool_spec 5 2 =
               [(actor_rollout_ref_pool_id, a), (critic_pool_id, c)]
            \<and> a ! 0 - c ! 0 = 1 \<and> a ! 1 - c ! 1 = 1)
   \<and> split_resource_pool_spec 5 2 =
       [(''actor_rollout_ref_pool'', [3, 3]), (''critic_pool'', [2, 2])]"
proof -
  have h1: "1 \<le> trainer_n_gpus_per_node (plain_config 2 5)"
    by (simp add: plain_config_def)
  have h2: "1 \<le> trainer_nnodes (plain_config 2 5)"
    by (simp add: plain_config_def)
  from actor_row_leads_by_parity [OF h1 h2]
  obtain a c where
    "split_resource_pool_spec (trainer_n_gpus_per_node (plain_config 2 5))
       (trainer_nnodes (plain_config 2 5)) =
       [(actor_rollout_ref_pool_id, a), (critic_pool_id, c)]"
    and "\<forall>i < nat (trainer_nnodes (plain_config 2 5)).
           a ! i - c ! i = trainer_n_gpus_per_node (plain_config 2 5) mod 2 \<and>
           c ! i \<le> a ! i \<and> a ! i \<le> c ! i + 1"
    by blast
  then have x: "split_resource_pool_spec 5 2 =
               [(actor_rollout_ref_pool_id, a), (critic_pool_id, c)]
            \<and> a ! 0 - c ! 0 = 1 \<and> a ! 1 - c ! 1 = 1"
    by (simp add: plain_config_def)
  have "split_resource_pool_spec 5 2 =
       [(''actor_rollout_ref_pool'', [3, 3]), (''critic_pool'', [2, 2])]"
    by (simp add: split_spec_rows replicate_two actor_rollout_ref_pool_id_def
        critic_pool_id_def)
  with h1 h2 x show ?thesis by blast
qed

section \<open>The reward pool\<close>

text \<open>
  C6. When the reward pool is enabled and its GPUs per node or its node count is zero
  or negative, the method raises: the outcome is a \<^verbatim>\<open>ValueError\<close> whose message
  names the configuration field that was rejected, the GPU count first. The manager is
  never constructed, so this holds whatever the constructor validates. In particular an
  enabled reward pool with no GPU per node is rejected.
\<close>

theorem reward_pool_counts_rejected:
  assumes "reward_model_enable_resource_pool cfg"
    and "reward_model_n_gpus_per_node cfg \<le> 0 \<or> reward_model_nnodes cfg \<le> 0"
  shows "fst (init_resource_pool_mgr validate cfg m) =
           Inl (ValueError
             (if reward_model_n_gpus_per_node cfg \<le> 0
              then ''config.reward_model.n_gpus_per_node must be greater than 0''
              else ''config.reward_model.nnodes must be greater than 0''))"
proof (cases "reward_model_n_gpus_per_node cfg \<le> 0")
  case True
  then show ?thesis
    by (simp add: init_bad_gpus [OF assms(1)])
next
  case False
  with assms(2) have "0 < reward_model_n_gpus_per_node cfg" and "reward_model_nnodes cfg \<le> 0"
    by simp_all
  with assms(1) False show ?thesis
    by (simp add: init_bad_nnodes)
qed

theorem reward_pool_counts_rejected_witness:
  "reward_model_enable_resource_pool (reward_config 2 2 1 0)
   \<and> (reward_model_n_gpus_per_node (reward_config 2 2 1 0) \<le> 0 \<or>
      reward_model_nnodes (reward_config 2 2 1 0) \<le> 0)
   \<and> fst (init_resource_pool_mgr create_violation (reward_config 2 2 1 0) []) =
       Inl (ValueError ''config.reward_model.n_gpus_per_node must be greater than 0'')"
proof -
  have h1: "reward_model_enable_resource_pool (reward_config 2 2 1 0)"
    by (simp add: reward_config_def)
  have h2: "reward_model_n_gpus_per_node (reward_config 2 2 1 0) \<le> 0 \<or>
      reward_model_nnodes (reward_config 2 2 1 0) \<le> 0"
    by (simp add: reward_config_def)
  have g: "reward_model_n_gpus_per_node (reward_config 2 2 1 0) \<le> 0"
    by (simp add: reward_config_def)
  have "fst (init_resource_pool_mgr create_violation (reward_config 2 2 1 0) []) =
       Inl (ValueError ''config.reward_model.n_gpus_per_node must be greater than 0'')"
    using reward_pool_counts_rejected [OF h1 h2, where validate = create_violation and m = "[]"] g
    by simp
  with h1 h2 show ?thesis by blast
qed

text \<open>
  C7. When the reward pool is enabled with positive GPUs per node and a positive node
  count, the pool spec of every manager the method returns, whatever the constructor
  validates, is the two rows of the allocation followed by a third pool,
  \<^verbatim>\<open>reward_pool\<close>, holding the reward model's GPUs per node once for each of the
  reward model's nodes. The two primary rows still add up to the GPUs of a primary
  node: nothing is taken from them for the reward pool.
\<close>

theorem reward_pool_is_third_pool:
  assumes "reward_model_enable_resource_pool cfg"
    and "0 < reward_model_n_gpus_per_node cfg" and "0 < reward_model_nnodes cfg"
    and "fst (init_resource_pool_mgr validate cfg m) = Inr mgr"
  shows "resource_pool_spec mgr =
             split_resource_pool_spec (trainer_n_gpus_per_node cfg) (trainer_nnodes cfg) @
             [(''reward_pool'',
               replicate (nat (reward_model_nnodes cfg)) (reward_model_n_gpus_per_node cfg))]
         \<and> resource_pool_spec mgr =
             [(actor_rollout_ref_pool_id,
               replicate (nat (trainer_nnodes cfg)) ((trainer_n_gpus_per_node cfg + 1) div 2)),
              (critic_pool_id,
               replicate (nat (trainer_nnodes cfg)) (trainer_n_gpus_per_node cfg div 2)),
              (''reward_pool'',
               replicate (nat (reward_model_nnodes cfg)) (reward_model_n_gpus_per_node cfg))]
         \<and> (trainer_n_gpus_per_node cfg + 1) div 2 + trainer_n_gpus_per_node cfg div 2 =
             trainer_n_gpus_per_node cfg
         \<and> 0 < nat (reward_model_nnodes cfg)"
proof -
  have "(trainer_n_gpus_per_node cfg + 1) div 2 + trainer_n_gpus_per_node cfg div 2 =
      trainer_n_gpus_per_node cfg"
    by presburger
  moreover have "0 < nat (reward_model_nnodes cfg)"
    using assms(3) by simp
  ultimately show ?thesis
    using init_returns_spec(1) [OF assms(4)] assms(1) by (simp add: split_spec_rows)
qed

theorem reward_pool_is_third_pool_witness:
  "reward_model_enable_resource_pool (reward_config 2 2 1 1)
   \<and> 0 < reward_model_n_gpus_per_node (reward_config 2 2 1 1)
   \<and> 0 < reward_model_nnodes (reward_config 2 2 1 1)
   \<and> (\<exists>mgr. fst (init_resource_pool_mgr create_violation (reward_config 2 2 1 1) []) = Inr mgr
          \<and> resource_pool_spec mgr =
              [(''actor_rollout_ref_pool'', [1, 1]), (''critic_pool'', [1, 1]),
               (''reward_pool'', [1])])"
proof -
  have h1: "reward_model_enable_resource_pool (reward_config 2 2 1 1)"
    by (simp add: reward_config_def)
  have h2: "0 < reward_model_n_gpus_per_node (reward_config 2 2 1 1)"
    by (simp add: reward_config_def)
  have h3: "0 < reward_model_nnodes (reward_config 2 2 1 1)"
    by (simp add: reward_config_def)
  have "\<exists>mgr. fst (init_resource_pool_mgr create_violation (reward_config 2 2 1 1) []) = Inr mgr"
    by (simp add: init_enabled [OF h1 h2 h3] split_spec_rows new_ResourcePoolManager_def
        create_violation_reward)
  then obtain mgr
    where h4: "fst (init_resource_pool_mgr create_violation (reward_config 2 2 1 1) []) = Inr mgr"
    by blast
  from reward_pool_is_third_pool [OF h1 h2 h3 h4]
  have "resource_pool_spec mgr =
             [(actor_rollout_ref_pool_id,
               replicate (nat (trainer_nnodes (reward_config 2 2 1 1)))
                 ((trainer_n_gpus_per_node (reward_config 2 2 1 1) + 1) div 2)),
              (critic_pool_id,
               replicate (nat (trainer_nnodes (reward_config 2 2 1 1)))
                 (trainer_n_gpus_per_node (reward_config 2 2 1 1) div 2)),
              (''reward_pool'',
               replicate (nat (reward_model_nnodes (reward_config 2 2 1 1)))
                 (reward_model_n_gpus_per_node (reward_config 2 2 1 1)))]"
    by blast
  then have "resource_pool_spec mgr =
              [(''actor_rollout_ref_pool'', [1, 1]), (''critic_pool'', [1, 1]),
               (''reward_pool'', [1])]"
    by (simp add: reward_config_def replicate_two actor_rollout_ref_pool_id_def
        critic_pool_id_def)
  with h1 h2 h3 h4 show ?thesis by blast
qed

section \<open>Repeated invocation\<close>

text \<open>
  C9. The method is deterministic and idempotent: invoking it a second time with the
  same configuration, on the mapping the first invocation left behind, gives the same
  outcome again, the same manager or the same error, and leaves the same mapping. This
  holds whatever the constructor validates, as long as it is the same validation in
  both invocations.
\<close>

theorem init_resource_pool_mgr_idempotent:
  "init_resource_pool_mgr validate cfg (snd (init_resource_pool_mgr validate cfg m)) =
     init_resource_pool_mgr validate cfg m"
proof -
  let ?M = "dict_set Critic critic_pool_id (dict_set ActorRollout actor_rollout_ref_pool_id m)"
  have again: "dict_set Critic critic_pool_id
      (dict_set ActorRollout actor_rollout_ref_pool_id ?M) = ?M"
    by (rule dict_set_twice) simp
  have "init_resource_pool_mgr validate cfg ?M = init_resource_pool_mgr validate cfg m"
    by (simp add: init_resource_pool_mgr_def Let_def again)
  then show ?thesis
    by (simp add: init_mapping)
qed

section \<open>Failure and the role mapping\<close>

text \<open>
  C5, as the spec states it: a failed construction leaves no role binding behind. The
  method writes the bindings of ActorRollout and Critic into \<^verbatim>\<open>self.mapping\<close>
  before it checks the reward-model counts, so a call that starts from the empty mapping
  and raises on an enabled reward pool without GPUs leaves both bindings behind.
\<close>

theorem failed_check_leaves_bindings_counterexample:
  "fst (init_resource_pool_mgr create_violation (reward_config 2 2 1 0) []) =
     Inl (ValueError ''config.reward_model.n_gpus_per_node must be greater than 0'')
   \<and> snd (init_resource_pool_mgr create_violation (reward_config 2 2 1 0) []) =
     [(ActorRollout, ''actor_rollout_ref_pool''), (Critic, ''critic_pool'')]
   \<and> snd (init_resource_pool_mgr create_violation (reward_config 2 2 1 0) []) \<noteq> []"
  by (simp add: init_resource_pool_mgr_def Let_def reward_config_def
      actor_rollout_ref_pool_id_def critic_pool_id_def)

text \<open>
  C5, amended. When the reward-pool check fails, the method raises its error and
  returns no manager, so no pool spec and no pool entry is left behind; the mapping,
  however, has been updated in place: ActorRollout is bound to
  \<^verbatim>\<open>actor_rollout_ref_pool\<close> and Critic to \<^verbatim>\<open>critic_pool\<close>, and the binding of
  every other role is as it was before the call.
\<close>

theorem failed_check_keeps_two_bindings:
  assumes "reward_model_enable_resource_pool cfg"
    and "reward_model_n_gpus_per_node cfg \<le> 0 \<or> reward_model_nnodes cfg \<le> 0"
  shows "(\<exists>e. fst (init_resource_pool_mgr validate cfg m) = Inl e)
         \<and> snd (init_resource_pool_mgr validate cfg m) =
             dict_set Critic critic_pool_id (dict_set ActorRollout actor_rollout_ref_pool_id m)
         \<and> map_of (snd (init_resource_pool_mgr validate cfg m)) ActorRollout =
             Some actor_rollout_ref_pool_id
         \<and> map_of (snd (init_resource_pool_mgr validate cfg m)) Critic = Some critic_pool_id
         \<and> (\<forall>r. r \<noteq> ActorRollout \<and> r \<noteq> Critic \<longrightarrow>
               map_of (snd (init_resource_pool_mgr validate cfg m)) r = map_of m r)"
proof -
  have "\<exists>e. fst (init_resource_pool_mgr validate cfg m) = Inl e"
    using assms by (auto simp add: init_resource_pool_mgr_def Let_def)
  then show ?thesis
    by (simp add: init_mapping map_of_dict_set)
qed

theorem failed_check_keeps_two_bindings_witness:
  "reward_model_enable_resource_pool (reward_config 1 4 0 2)
   \<and> (reward_model_n_gpus_per_node (reward_config 1 4 0 2) \<le> 0 \<or>
      reward_model_nnodes (reward_config 1 4 0 2) \<le> 0)
   \<and> (\<exists>e. fst (init_resource_pool_mgr create_violation (reward_config 1 4 0 2)
               [(Reference, ''global_pool'')]) = Inl e)
   \<and> snd (init_resource_pool_mgr create_violation (reward_config 1 4 0 2)
           [(Reference, ''global_pool'')]) =
       [(Reference, ''global_pool''), (ActorRollout, ''actor_rollout_ref_pool''),
        (Critic, ''critic_pool'')]"
proof -
  have h1: "reward_model_enable_resource_pool (reward_config 1 4 0 2)"
    by (simp add: reward_config_def)
  have h2: "reward_model_n_gpus_per_node (reward_config 1 4 0 2) \<le> 0 \<or>
      reward_model_nnodes (reward_config 1 4 0 2) \<le> 0"
    by (simp add: reward_config_def)
  note t = failed_check_keeps_two_bindings
    [OF h1 h2, where validate = create_violation and m = "[(Reference, ''global_pool'')]"]
  from t have e: "\<exists>e. fst (init_resource_pool_mgr create_violation (reward_config 1 4 0 2)
               [(Reference, ''global_pool'')]) = Inl e"
    by blast
  from t have "snd (init_resource_pool_mgr create_violation (reward_config 1 4 0 2)
        [(Reference, ''global_pool'')]) =
      dict_set Critic critic_pool_id
        (dict_set ActorRollout actor_rollout_ref_pool_id [(Reference, ''global_pool'')])"
    by blast
  then have "snd (init_resource_pool_mgr create_violation (reward_config 1 4 0 2)
        [(Reference, ''global_pool'')]) =
       [(Reference, ''global_pool''), (ActorRollout, ''actor_rollout_ref_pool''),
        (Critic, ''critic_pool'')]"
    by (simp add: actor_rollout_ref_pool_id_def critic_pool_id_def)
  with h1 h2 e show ?thesis by blast
qed

section \<open>Nodes with fewer than two GPUs\<close>




section \<open>The Reference role\<close>

text \<open>
  C8. The docstring of the method gives \<^verbatim>\<open>actor_rollout_ref_pool\<close> to the actor, the
  rollout and the reference model, but the method binds two roles only: ActorRollout to
  \<^verbatim>\<open>actor_rollout_ref_pool\<close> and Critic to \<^verbatim>\<open>critic_pool\<close>. On four GPUs of one
  node, a call from the empty mapping leaves Reference unbound, and a call from a
  mapping that binds Reference to \<^verbatim>\<open>global_pool\<close> leaves that binding as it is,
  naming a pool the pool spec does not hold, so that the validation of the spec
  rejects the pair with \<^verbatim>\<open>UnknownPool\<close>.
\<close>

theorem reference_role_not_bound:
  "init_resource_pool_mgr create_violation (plain_config 1 4) [] =
     (Inr \<lparr>resource_pool_spec = [(''actor_rollout_ref_pool'', [2]), (''critic_pool'', [2])],
           mapping = [(ActorRollout, ''actor_rollout_ref_pool''), (Critic, ''critic_pool'')]\<rparr>,
      [(ActorRollout, ''actor_rollout_ref_pool''), (Critic, ''critic_pool'')])
   \<and> map_of (snd (init_resource_pool_mgr create_violation (plain_config 1 4) [])) Reference = None
   \<and> map_of (snd (init_resource_pool_mgr create_violation (plain_config 1 4) [])) ActorRollout =
       Some ''actor_rollout_ref_pool''
   \<and> map_of (snd (init_resource_pool_mgr create_violation (plain_config 1 4) [])) Critic =
       Some ''critic_pool''
   \<and> map_of (snd (init_resource_pool_mgr create_violation (plain_config 1 4)
                    [(Reference, ''global_pool'')])) Reference = Some ''global_pool''
   \<and> fst (init_resource_pool_mgr create_violation (plain_config 1 4)
            [(Reference, ''global_pool'')]) = Inl (UnknownPool ''global_pool'')"
  by (simp add: init_resource_pool_mgr_def Let_def plain_config_def
      split_resource_pool_spec_def list_mul_def new_ResourcePoolManager_def
      create_violation_def actor_rollout_ref_pool_id_def critic_pool_id_def)

end
